theory Spec2Isabelle
  imports Main "HOL-Library.Sublist"
begin

section \<open>JavaScript values used by the server\<close>

text \<open>
  The server (\<^verbatim>\<open>src/index.js\<close>) is a class with one dispatcher and three tool
  handlers. Its handlers destructure a request object, fall back to process defaults with
  the \<^verbatim>\<open>||\<close> operator, talk to a pooled database client, and shape a response object
  that is serialised with \<^verbatim>\<open>JSON.stringify\<close>. The model keeps the response object
  itself (the serialisation is the runtime's).

  An optional request field is absent (\<^verbatim>\<open>undefined\<close>), \<^verbatim>\<open>null\<close>, or a value of the
  type the tool's input schema declares. Numbers are integers here: row counts and the
  cardinal numbers of \<^verbatim>\<open>information_schema\<close>. Strings are lists of 8-bit characters;
  case mapping and trimming act on the ASCII letters and the ASCII white space, and leave
  every other character alone, so the string methods below are those of the source on
  ASCII text.
\<close>

datatype 'a jsopt = Undefined | Null | Given 'a

text \<open>Values found in a row returned by the driver.\<close>

datatype jsval = JUndefined | JNull | JStr string | JNum int

type_synonym row = "(string \<times> jsval) list"

text \<open>Property access \<^verbatim>\<open>row.k\<close>: a missing property reads as \<^verbatim>\<open>undefined\<close>.\<close>

definition getProp :: "row \<Rightarrow> string \<Rightarrow> jsval" where
  "getProp r k = (case map_of r k of Some v \<Rightarrow> v | None \<Rightarrow> JUndefined)"

subsection \<open>Number to string\<close>

function natToString :: "nat \<Rightarrow> string" where
  "natToString n =
     (if n < 10 then [''0123456789'' ! n]
      else natToString (n div 10) @ [''0123456789'' ! (n mod 10)])"
  by pat_completeness auto
termination
  by (relation "measure id") auto

declare natToString.simps [simp del]

definition numberToString :: "int \<Rightarrow> string" where
  "numberToString i =
     (if i < 0 then ''-'' @ natToString (nat (- i)) else natToString (nat i))"

text \<open>\<^verbatim>\<open>ToString\<close>, as applied by template literals and by \<^verbatim>\<open>+\<close> with a string operand.\<close>

fun toStr :: "jsval \<Rightarrow> string" where
  "toStr JUndefined = ''undefined''"
| "toStr JNull = ''null''"
| "toStr (JStr s) = s"
| "toStr (JNum n) = numberToString n"

subsection \<open>Truthiness and the fallback operator\<close>

fun truthy :: "jsval \<Rightarrow> bool" where
  "truthy JUndefined = False"
| "truthy JNull = False"
| "truthy (JStr s) = (s \<noteq> [])"
| "truthy (JNum n) = (n \<noteq> 0)"

text \<open>\<^verbatim>\<open>x || d\<close> for an optional string \<open>x\<close>: the empty string is falsy.\<close>

fun strOr :: "string jsopt \<Rightarrow> string \<Rightarrow> string" where
  "strOr (Given s) d = (if s \<noteq> [] then s else d)"
| "strOr Undefined d = d"
| "strOr Null d = d"

text \<open>\<^verbatim>\<open>x || d\<close> for an optional number \<open>x\<close>: zero is falsy.\<close>

fun numOr :: "int jsopt \<Rightarrow> int \<Rightarrow> int" where
  "numOr (Given n) d = (if n \<noteq> 0 then n else d)"
| "numOr Undefined d = d"
| "numOr Null d = d"

text \<open>\<^verbatim>\<open>x || null\<close> for an optional string \<open>x\<close>.\<close>

fun strOrNull :: "string jsopt \<Rightarrow> string jsopt" where
  "strOrNull (Given s) = (if s \<noteq> [] then Given s else Null)"
| "strOrNull Undefined = Null"
| "strOrNull Null = Null"

text \<open>The test \<^verbatim>\<open>if (x)\<close> on an optional string.\<close>

fun truthyStr :: "string jsopt \<Rightarrow> bool" where
  "truthyStr (Given s) = (s \<noteq> [])"
| "truthyStr Undefined = False"
| "truthyStr Null = False"

subsection \<open>String methods\<close>

definition isWhiteSpace :: "char \<Rightarrow> bool" where
  "isWhiteSpace c =
     (c \<in> set [CHR 0x09, CHR 0x0A, CHR 0x0B, CHR 0x0C, CHR 0x0D, CHR 0x20])"

definition trim :: "string \<Rightarrow> string" where
  "trim s = rev (dropWhile isWhiteSpace (rev (dropWhile isWhiteSpace s)))"

definition upperChar :: "char \<Rightarrow> char" where
  "upperChar c =
     (case map_of (zip ''abcdefghijklmnopqrstuvwxyz'' ''ABCDEFGHIJKLMNOPQRSTUVWXYZ'') c of
        Some u \<Rightarrow> u
      | None \<Rightarrow> c)"

definition toUpperCase :: "string \<Rightarrow> string" where
  "toUpperCase s = map upperChar s"

definition startsWith :: "string \<Rightarrow> string \<Rightarrow> bool" where
  "startsWith s p = prefix p s"

definition includesStr :: "string \<Rightarrow> string \<Rightarrow> bool" where
  "includesStr s p = sublist p s"

subsection \<open>\<^verbatim>\<open>parseInt\<close> on an environment variable\<close>

text \<open>
  \<^verbatim>\<open>parseInt(v)\<close> with no radix: leading white space is skipped, a sign is read, a
  \<^verbatim>\<open>0x\<close> prefix selects radix 16, and the longest run of digits is the value. No digit
  at all, or an unset variable, gives \<^verbatim>\<open>NaN\<close>, which is \<open>None\<close> here.
\<close>

definition digitValue :: "char \<Rightarrow> nat option" where
  "digitValue c =
     map_of (zip ''0123456789abcdefABCDEF''
                 [0, 1, 2, 3, 4, 5, 6, 7, 8, 9, 10, 11, 12, 13, 14, 15, 10, 11, 12, 13, 14, 15]) c"

definition isRadixDigit :: "nat \<Rightarrow> char \<Rightarrow> bool" where
  "isRadixDigit radix c = (case digitValue c of Some v \<Rightarrow> v < radix | None \<Rightarrow> False)"

definition digitsValue :: "nat \<Rightarrow> string \<Rightarrow> nat" where
  "digitsValue radix z =
     foldl (\<lambda>acc c. acc * radix + (case digitValue c of Some v \<Rightarrow> v | None \<Rightarrow> 0)) 0 z"

definition parseInt :: "string option \<Rightarrow> int option" where
  "parseInt v =
     (case v of
        None \<Rightarrow> None
      | Some inputString \<Rightarrow>
          (let s = dropWhile isWhiteSpace inputString;
               sign = (if startsWith s ''-'' then - 1 else (1 :: int));
               s1 = (if startsWith s ''-'' \<or> startsWith s ''+'' then drop 1 s else s);
               radix = (if startsWith s1 ''0x'' \<or> startsWith s1 ''0X'' then 16 else 10);
               s2 = (if radix = 16 then drop 2 s1 else s1);
               z = takeWhile (isRadixDigit radix) s2
           in if z = [] then None else Some (sign * int (digitsValue radix z))))"

section \<open>Configuration\<close>

text \<open>
  The constructor reads four environment variables into \<^verbatim>\<open>this.defaultConfig\<close>. An
  unset or empty variable, and a row count or timeout that parses to \<^verbatim>\<open>NaN\<close> or to
  zero, fall back to the built-in default.
\<close>

record env =
  POSTGRES_DEFAULT_SCHEMA :: "string option"
  POSTGRES_DEFAULT_CONTEXT :: "string option"
  POSTGRES_MAX_ROWS :: "string option"
  POSTGRES_TIMEOUT :: "string option"

record defaultConfig =
  default_schema :: string
  default_context :: string
  default_maxRows :: int
  default_timeout :: int

definition envOr :: "string option \<Rightarrow> string \<Rightarrow> string" where
  "envOr v d = (case v of Some s \<Rightarrow> (if s \<noteq> [] then s else d) | None \<Rightarrow> d)"

definition parsedOr :: "int option \<Rightarrow> int \<Rightarrow> int" where
  "parsedOr v d = (case v of Some n \<Rightarrow> (if n \<noteq> 0 then n else d) | None \<Rightarrow> d)"

definition mkDefaultConfig :: "env \<Rightarrow> defaultConfig" where
  "mkDefaultConfig e =
     \<lparr> default_schema = envOr (POSTGRES_DEFAULT_SCHEMA e) ''public'',
       default_context = envOr (POSTGRES_DEFAULT_CONTEXT e) [],
       default_maxRows = parsedOr (parseInt (POSTGRES_MAX_ROWS e)) 100,
       default_timeout = parsedOr (parseInt (POSTGRES_TIMEOUT e)) 30000 \<rparr>"

definition emptyEnv :: env where
  "emptyEnv =
     \<lparr> POSTGRES_DEFAULT_SCHEMA = None, POSTGRES_DEFAULT_CONTEXT = None,
       POSTGRES_MAX_ROWS = None, POSTGRES_TIMEOUT = None \<rparr>"

section \<open>The pool and the driver\<close>

text \<open>
  The pool and the client are the driver's. A call sees them through three operations:
  \<^verbatim>\<open>pool.connect()\<close>, which hands out a client or throws; \<^verbatim>\<open>client.query(text, params)\<close>,
  which returns a result or throws; and \<^verbatim>\<open>client.release()\<close>. The \<open>world\<close> fixes what
  the first two do during one call; the \<open>pool\<close> record counts what the call did, and
  keeps every statement that reached the driver, with its bound parameters.
\<close>

record pg_error =
  message :: string
  code :: "string option"
  detail :: "string option"
  hint :: "string option"
  severity :: "string option"

record pg_field =
  f_name :: string
  f_tableID :: int
  f_columnID :: int
  f_dataTypeID :: int
  f_dataTypeSize :: int
  f_dataTypeModifier :: int

text \<open>
  A result of the driver: \<^verbatim>\<open>rows\<close> is always an array; \<^verbatim>\<open>rowCount\<close> may be
  \<^verbatim>\<open>null\<close>; the handler guards \<^verbatim>\<open>fields\<close> against being absent.
\<close>

record pg_result =
  result_command :: string
  result_rowCount :: "int option"
  result_fields :: "pg_field list option"
  result_rows :: "row list"

record world =
  connectError :: "pg_error option"
  runQuery :: "string \<Rightarrow> string list \<Rightarrow> pg_error + pg_result"

record pool =
  acquired :: nat
  released :: nat
  statements :: "(string \<times> string list) list"

definition connect :: "world \<Rightarrow> pool \<Rightarrow> (pg_error + unit) \<times> pool" where
  "connect w p =
     (case connectError w of
        Some e \<Rightarrow> (Inl e, p)
      | None \<Rightarrow> (Inr (), p\<lparr>acquired := acquired p + 1\<rparr>))"

definition clientQuery ::
  "world \<Rightarrow> string \<Rightarrow> string list \<Rightarrow> pool \<Rightarrow> (pg_error + pg_result) \<times> pool" where
  "clientQuery w text params p =
     (runQuery w text params, p\<lparr>statements := statements p @ [(text, params)]\<rparr>)"

definition release :: "pool \<Rightarrow> pool" where
  "release p = p\<lparr>released := released p + 1\<rparr>"

section \<open>Requests and responses\<close>

text \<open>
  The dispatcher passes one \<^verbatim>\<open>args\<close> object to whichever handler it selects, and each
  handler destructures the fields it needs. The object itself is present, and the fields
  a tool's input schema requires (\<^verbatim>\<open>query\<close>, \<^verbatim>\<open>tableName\<close>) are strings; the others
  are optional. The source's \<^verbatim>\<open>context\<close> field is \<open>contextArg\<close> here.
\<close>

record args =
  query :: string
  tableName :: string
  schema :: "string jsopt"
  contextArg :: "string jsopt"
  maxRows :: "int jsopt"
  pattern :: "string jsopt"

record error_block =
  err_message :: string
  err_code :: "string option"
  err_detail :: "string option"
  err_hint :: "string option"

record field_descriptor =
  fd_name :: string
  fd_dataTypeID :: int
  fd_dataTypeSize :: int
  fd_dataTypeModifier :: int

record execution =
  exec_command :: string
  exec_rowCount :: int
  exec_fields :: "field_descriptor list option"

record query_metadata =
  hasData :: bool
  dataCount :: nat
  wasLimited :: bool
  limitApplied :: int

record query_success =
  qs_query :: string
  qs_schema :: string
  qs_context :: string
  qs_execution :: execution
  qs_data :: "row list"
  qs_metadata :: query_metadata

record query_failure =
  qf_error :: error_block
  qf_query :: string
  qf_schema :: string
  qf_context :: string

record column_constraints =
  characterMaximumLength :: jsval
  numericPrecision :: jsval
  numericScale :: jsval

record column_descriptor =
  col_position :: nat
  col_name :: jsval
  dataType :: jsval
  nullable :: bool
  defaultValue :: jsval
  constraints :: column_constraints
  fullType :: string

record table_identity =
  table_name :: string
  table_schema :: string
  table_fullName :: "string option"

record describe_metadata =
  columnCount :: nat
  columns_found :: bool

record describe_success =
  ds_table :: table_identity
  ds_columns :: "column_descriptor list"
  ds_metadata :: describe_metadata

record describe_failure =
  df_error :: error_block
  df_table :: table_identity

record table_descriptor =
  tbl_position :: nat
  tbl_name :: jsval
  tbl_type :: jsval
  tbl_fullName :: string

record list_metadata =
  tableCount :: nat
  tables_found :: bool
  filtered :: bool

record list_success =
  ls_schema :: string
  ls_pattern :: "string jsopt"
  ls_tables :: "table_descriptor list"
  ls_metadata :: list_metadata

record list_failure =
  lf_error :: error_block
  lf_schema :: string
  lf_pattern :: "string jsopt"

text \<open>
  The \<^verbatim>\<open>success\<close> flag of a response object is the constructor: the three success
  shapes carry \<^verbatim>\<open>success: true\<close>, the three failure shapes \<^verbatim>\<open>success: false\<close>.
\<close>

datatype response =
    QuerySuccess query_success
  | QueryFailure query_failure
  | DescribeSuccess describe_success
  | DescribeFailure describe_failure
  | ListSuccess list_success
  | ListFailure list_failure

fun success :: "response \<Rightarrow> bool" where
  "success (QuerySuccess _) = True"
| "success (QueryFailure _) = False"
| "success (DescribeSuccess _) = True"
| "success (DescribeFailure _) = False"
| "success (ListSuccess _) = True"
| "success (ListFailure _) = False"

fun responseError :: "response \<Rightarrow> error_block option" where
  "responseError (QueryFailure r) = Some (qf_error r)"
| "responseError (DescribeFailure r) = Some (df_error r)"
| "responseError (ListFailure r) = Some (lf_error r)"
| "responseError _ = None"

text \<open>The \<^verbatim>\<open>error\<close> block every catch clause builds from the caught error.\<close>

definition errorBlock :: "pg_error \<Rightarrow> error_block" where
  "errorBlock error =
     \<lparr> err_message = message error, err_code = code error,
       err_detail = detail error, err_hint = hint error \<rparr>"

section \<open>The query handler\<close>

text \<open>
  \<^verbatim>\<open>handleQuery\<close>: the outer \<^verbatim>\<open>try\<close> catches what \<^verbatim>\<open>pool.connect()\<close> throws, the inner
  \<^verbatim>\<open>try ... finally\<close> releases the client whatever the statement does, and the error
  then reaches the same \<^verbatim>\<open>catch\<close>. \<open>contextInfo\<close> is computed and never used, as in
  the source.
\<close>

text \<open>
  The text that is sent to the driver: \<^verbatim>\<open>finalQuery\<close> starts as the request's text and
  gets the row limit appended under the handler's three-part test.
\<close>

definition finalQuery :: "string \<Rightarrow> int \<Rightarrow> string" where
  "finalQuery q limitRows =
     (if startsWith (toUpperCase (trim q)) ''SELECT'' \<and>
         \<not> includesStr (toUpperCase q) ''LIMIT'' \<and>
         limitRows > 0
      then q @ '' LIMIT '' @ numberToString limitRows
      else q)"

definition handleQuery :: "defaultConfig \<Rightarrow> world \<Rightarrow> args \<Rightarrow> pool \<Rightarrow> response \<times> pool" where
  "handleQuery cfg w a p =
     (let targetSchema = strOr (schema a) (default_schema cfg);
          limitRows = numOr (maxRows a) (default_maxRows cfg);
          ctx = strOr (contextArg a) (default_context cfg);
          errorResponse = (\<lambda>error. QueryFailure
            \<lparr> qf_error = errorBlock error, qf_query = query a,
              qf_schema = targetSchema, qf_context = ctx \<rparr>)
      in case connect w p of
           (Inl error, p0) \<Rightarrow> (errorResponse error, p0)
         | (Inr client, p1) \<Rightarrow>
             (let contextInfo =
                    (if ctx \<noteq> [] then ''\<newline>Context: '' @ ctx @ ''\<newline>'' else []);
                  final = finalQuery (query a) limitRows
              in case clientQuery w final [] p1 of
                   (Inl error, p2) \<Rightarrow> (errorResponse error, release p2)
                 | (Inr result, p2) \<Rightarrow>
                     (QuerySuccess
                        \<lparr> qs_query = final,
                          qs_schema = targetSchema,
                          qs_context = ctx,
                          qs_execution =
                            \<lparr> exec_command = result_command result,
                              exec_rowCount =
                                (case result_rowCount result of
                                   Some n \<Rightarrow> (if n \<noteq> 0 then n else 0)
                                 | None \<Rightarrow> 0),
                              exec_fields =
                                (case result_fields result of
                                   Some fs \<Rightarrow> Some (map (\<lambda>f.
                                     \<lparr> fd_name = f_name f,
                                       fd_dataTypeID = f_dataTypeID f,
                                       fd_dataTypeSize = f_dataTypeSize f,
                                       fd_dataTypeModifier = f_dataTypeModifier f \<rparr>) fs)
                                 | None \<Rightarrow> None) \<rparr>,
                          qs_data = result_rows result,
                          qs_metadata =
                            \<lparr> hasData = (length (result_rows result) > 0),
                              dataCount = length (result_rows result),
                              wasLimited = (query a \<noteq> final),
                              limitApplied = limitRows \<rparr> \<rparr>,
                      release p2)))"

section \<open>The table description handler\<close>

definition describeSql :: string where
  "describeSql =
     ''\<newline>'' @
     ''      SELECT \<newline>'' @
     ''        column_name,\<newline>'' @
     ''        data_type,\<newline>'' @
     ''        is_nullable,\<newline>'' @
     ''        column_default,\<newline>'' @
     ''        character_maximum_length,\<newline>'' @
     ''        numeric_precision,\<newline>'' @
     ''        numeric_scale\<newline>'' @
     ''      FROM information_schema.columns \<newline>'' @
     ''      WHERE table_schema = $1 AND table_name = $2\<newline>'' @
     ''      ORDER BY ordinal_position;\<newline>'' @
     ''    ''"

text \<open>The callback of \<^verbatim>\<open>result.rows.map((row, index) => ...)\<close>.\<close>

definition describeColumn :: "nat \<Rightarrow> row \<Rightarrow> column_descriptor" where
  "describeColumn index r =
     \<lparr> col_position = index + 1,
       col_name = getProp r ''column_name'',
       dataType = getProp r ''data_type'',
       nullable = (getProp r ''is_nullable'' = JStr ''YES''),
       defaultValue = getProp r ''column_default'',
       constraints =
         \<lparr> characterMaximumLength = getProp r ''character_maximum_length'',
           numericPrecision = getProp r ''numeric_precision'',
           numericScale = getProp r ''numeric_scale'' \<rparr>,
       fullType =
         toStr (getProp r ''data_type'') @
         (if truthy (getProp r ''character_maximum_length'')
          then ''('' @ toStr (getProp r ''character_maximum_length'') @ '')''
          else []) @
         (if truthy (getProp r ''numeric_precision'')
          then ''('' @ toStr (getProp r ''numeric_precision'') @
               (if truthy (getProp r ''numeric_scale'')
                then '','' @ toStr (getProp r ''numeric_scale'')
                else []) @
               '')''
          else []) \<rparr>"

definition handleDescribeTable ::
  "defaultConfig \<Rightarrow> world \<Rightarrow> args \<Rightarrow> pool \<Rightarrow> response \<times> pool" where
  "handleDescribeTable cfg w a p =
     (let targetSchema = strOr (schema a) (default_schema cfg);
          errorResponse = (\<lambda>error. DescribeFailure
            \<lparr> df_error = errorBlock error,
              df_table = \<lparr> table_name = tableName a, table_schema = targetSchema,
                           table_fullName = None \<rparr> \<rparr>)
      in case connect w p of
           (Inl error, p0) \<Rightarrow> (errorResponse error, p0)
         | (Inr client, p1) \<Rightarrow>
             (case clientQuery w describeSql [targetSchema, tableName a] p1 of
                (Inl error, p2) \<Rightarrow> (errorResponse error, release p2)
              | (Inr result, p2) \<Rightarrow>
                  (DescribeSuccess
                     \<lparr> ds_table =
                         \<lparr> table_name = tableName a, table_schema = targetSchema,
                           table_fullName = Some (targetSchema @ ''.'' @ tableName a) \<rparr>,
                       ds_columns =
                         map (\<lambda>(index, r). describeColumn index r)
                             (enumerate 0 (result_rows result)),
                       ds_metadata =
                         \<lparr> columnCount = length (result_rows result),
                           columns_found = (length (result_rows result) > 0) \<rparr> \<rparr>,
                   release p2)))"

section \<open>The table listing handler\<close>

definition listSqlBase :: string where
  "listSqlBase =
     ''\<newline>'' @
     ''      SELECT table_name, table_type\<newline>'' @
     ''      FROM information_schema.tables \<newline>'' @
     ''      WHERE table_schema = $1\<newline>'' @
     ''    ''"

text \<open>
  The statement and its parameters, as built before the \<^verbatim>\<open>try\<close>: the \<^verbatim>\<open>LIKE\<close> condition
  and the second parameter are added under \<^verbatim>\<open>if (pattern)\<close>, then the ordering clause.
\<close>

definition listStatement :: "string \<Rightarrow> string jsopt \<Rightarrow> string \<times> string list" where
  "listStatement targetSchema pat =
     (let (query1, params) =
            (case pat of
               Given s \<Rightarrow>
                 (if s \<noteq> [] then (listSqlBase @ '' AND table_name LIKE $2'', [targetSchema, s])
                  else (listSqlBase, [targetSchema]))
             | Undefined \<Rightarrow> (listSqlBase, [targetSchema])
             | Null \<Rightarrow> (listSqlBase, [targetSchema]))
      in (query1 @ '' ORDER BY table_name'', params))"

text \<open>The callback of \<^verbatim>\<open>result.rows.map((row, index) => ...)\<close>.\<close>

definition describeTable :: "string \<Rightarrow> nat \<Rightarrow> row \<Rightarrow> table_descriptor" where
  "describeTable targetSchema index r =
     \<lparr> tbl_position = index + 1,
       tbl_name = getProp r ''table_name'',
       tbl_type = getProp r ''table_type'',
       tbl_fullName = targetSchema @ ''.'' @ toStr (getProp r ''table_name'') \<rparr>"

definition handleListTables ::
  "defaultConfig \<Rightarrow> world \<Rightarrow> args \<Rightarrow> pool \<Rightarrow> response \<times> pool" where
  "handleListTables cfg w a p =
     (let targetSchema = strOr (schema a) (default_schema cfg);
          (text, params) = listStatement targetSchema (pattern a);
          errorResponse = (\<lambda>error. ListFailure
            \<lparr> lf_error = errorBlock error, lf_schema = targetSchema,
              lf_pattern = strOrNull (pattern a) \<rparr>)
      in case connect w p of
           (Inl error, p0) \<Rightarrow> (errorResponse error, p0)
         | (Inr client, p1) \<Rightarrow>
             (case clientQuery w text params p1 of
                (Inl error, p2) \<Rightarrow> (errorResponse error, release p2)
              | (Inr result, p2) \<Rightarrow>
                  (ListSuccess
                     \<lparr> ls_schema = targetSchema,
                       ls_pattern = strOrNull (pattern a),
                       ls_tables =
                         map (\<lambda>(index, r). describeTable targetSchema index r)
                             (enumerate 0 (result_rows result)),
                       ls_metadata =
                         \<lparr> tableCount = length (result_rows result),
                           tables_found = (length (result_rows result) > 0),
                           filtered = (pattern a \<noteq> Null) \<rparr> \<rparr>,
                   release p2)))"

section \<open>The dispatcher\<close>

text \<open>
  The \<^verbatim>\<open>CallToolRequestSchema\<close> handler: a \<^verbatim>\<open>switch\<close> on the tool name whose default
  branch throws. What it throws leaves the dispatcher, so its result is a sum: \<open>Inl\<close>
  the thrown error, \<open>Inr\<close> the handler's response.
\<close>

datatype thrown = Error string

definition callTool ::
  "defaultConfig \<Rightarrow> world \<Rightarrow> string \<Rightarrow> args \<Rightarrow> pool \<Rightarrow> (thrown + response) \<times> pool" where
  "callTool cfg w nm a p =
     (if nm = ''query'' then
        (case handleQuery cfg w a p of (r, p') \<Rightarrow> (Inr r, p'))
      else if nm = ''describe_table'' then
        (case handleDescribeTable cfg w a p of (r, p') \<Rightarrow> (Inr r, p'))
      else if nm = ''list_tables'' then
        (case handleListTables cfg w a p of (r, p') \<Rightarrow> (Inr r, p'))
      else (Inl (Error (''Unknown tool: '' @ nm)), p))"

section \<open>Observations and sample inputs\<close>

text \<open>
  The pool after one complete call that acquired a client, sent one statement and
  released the client.
\<close>

definition servedPool :: "pool \<Rightarrow> string \<Rightarrow> string list \<Rightarrow> pool" where
  "servedPool p text params =
     p\<lparr> acquired := acquired p + 1,
        statements := statements p @ [(text, params)],
        released := released p + 1 \<rparr>"

text \<open>A query response with its echoed schema and context fields blanked.\<close>

fun eraseEcho :: "response \<Rightarrow> response" where
  "eraseEcho (QuerySuccess r) = QuerySuccess (r\<lparr>qs_schema := [], qs_context := []\<rparr>)"
| "eraseEcho (QueryFailure r) = QueryFailure (r\<lparr>qf_schema := [], qf_context := []\<rparr>)"
| "eraseEcho r = r"

fun columnsOf :: "response \<Rightarrow> column_descriptor list" where
  "columnsOf (DescribeSuccess r) = ds_columns r"
| "columnsOf _ = []"

definition emptyPool :: pool where
  "emptyPool = \<lparr> acquired = 0, released = 0, statements = [] \<rparr>"

definition emptyResult :: pg_result where
  "emptyResult =
     \<lparr> result_command = ''SELECT'', result_rowCount = Some 0,
       result_fields = Some [], result_rows = [] \<rparr>"

text \<open>A database that answers every statement with no rows.\<close>

definition quietWorld :: world where
  "quietWorld = \<lparr> connectError = None, runQuery = (\<lambda>text params. Inr emptyResult) \<rparr>"

definition refused :: pg_error where
  "refused =
     \<lparr> message = ''connect ECONNREFUSED 127.0.0.1:5432'', code = Some ''ECONNREFUSED'',
       detail = None, hint = None, severity = None \<rparr>"

definition syntaxError :: pg_error where
  "syntaxError =
     \<lparr> message = ''syntax error at or near FORM'', code = Some ''42601'',
       detail = None, hint = None, severity = Some ''ERROR'' \<rparr>"

text \<open>A pool that cannot connect, and a database that rejects every statement.\<close>

definition downWorld :: world where
  "downWorld = \<lparr> connectError = Some refused, runQuery = (\<lambda>text params. Inr emptyResult) \<rparr>"

definition failingWorld :: world where
  "failingWorld = \<lparr> connectError = None, runQuery = (\<lambda>text params. Inl syntaxError) \<rparr>"

definition ordersArgs :: args where
  "ordersArgs =
     \<lparr> query = ''SELECT * FROM orders'', tableName = [], schema = Undefined,
       contextArg = Undefined, maxRows = Given 5, pattern = Undefined \<rparr>"

definition limitedArgs :: args where
  "limitedArgs =
     \<lparr> query = ''select * from orders limit 3'', tableName = [], schema = Undefined,
       contextArg = Undefined, maxRows = Given 5, pattern = Undefined \<rparr>"

definition zeroArgs :: args where
  "zeroArgs =
     \<lparr> query = ''SELECT * FROM orders'', tableName = [], schema = Undefined,
       contextArg = Undefined, maxRows = Given 0, pattern = Undefined \<rparr>"

definition negativeArgs :: args where
  "negativeArgs =
     \<lparr> query = ''SELECT * FROM orders'', tableName = [], schema = Undefined,
       contextArg = Undefined, maxRows = Given (- 5), pattern = Undefined \<rparr>"

definition usersArgs :: args where
  "usersArgs =
     \<lparr> query = [], tableName = ''users'', schema = Given ''public'',
       contextArg = Undefined, maxRows = Undefined, pattern = Undefined \<rparr>"

definition publicListArgs :: args where
  "publicListArgs =
     \<lparr> query = [], tableName = [], schema = Given ''public'',
       contextArg = Undefined, maxRows = Undefined, pattern = Undefined \<rparr>"

text \<open>
  What \<^verbatim>\<open>information_schema.columns\<close> holds for a table created with
  \<^verbatim>\<open>id integer primary key, name varchar(50), created_at timestamp\<close>: PostgreSQL
  reports precision 32 and scale 0 for an \<^verbatim>\<open>integer\<close> column, the declared length for
  \<^verbatim>\<open>varchar(50)\<close>, and neither for a timestamp.
\<close>

definition usersRows :: "row list" where
  "usersRows =
     [[(''column_name'', JStr ''id''), (''data_type'', JStr ''integer''),
       (''is_nullable'', JStr ''NO''), (''column_default'', JNull),
       (''character_maximum_length'', JNull), (''numeric_precision'', JNum 32),
       (''numeric_scale'', JNum 0)],
      [(''column_name'', JStr ''name''), (''data_type'', JStr ''character varying''),
       (''is_nullable'', JStr ''YES''), (''column_default'', JNull),
       (''character_maximum_length'', JNum 50), (''numeric_precision'', JNull),
       (''numeric_scale'', JNull)],
      [(''column_name'', JStr ''created_at''),
       (''data_type'', JStr ''timestamp without time zone''),
       (''is_nullable'', JStr ''YES''), (''column_default'', JNull),
       (''character_maximum_length'', JNull), (''numeric_precision'', JNull),
       (''numeric_scale'', JNull)]]"

definition usersResult :: pg_result where
  "usersResult =
     \<lparr> result_command = ''SELECT'', result_rowCount = Some 3,
       result_fields = Some [], result_rows = usersRows \<rparr>"

definition usersWorld :: world where
  "usersWorld = \<lparr> connectError = None, runQuery = (\<lambda>text params. Inr usersResult) \<rparr>"

section \<open>The three outcomes of each handler\<close>

text \<open>
  A call ends in one of three ways: the pool could not hand out a client, the statement
  threw, or the statement returned. The lemmas below give the handler's result in each.
\<close>

lemma servedPool_statements:
  "statements (servedPool p text params) = statements p @ [(text, params)]"
  by (simp add: servedPool_def)

lemma servedPool_counts:
  "acquired (servedPool p text params) = acquired p + 1 \<and>
   released (servedPool p text params) = released p + 1"
  by (simp add: servedPool_def)

lemma handleQuery_down:
  assumes "connectError w = Some e"
  shows "handleQuery cfg w a p =
     (QueryFailure
        \<lparr> qf_error = errorBlock e, qf_query = query a,
          qf_schema = strOr (schema a) (default_schema cfg),
          qf_context = strOr (contextArg a) (default_context cfg) \<rparr>, p)"
  using assms by (simp add: handleQuery_def connect_def Let_def)

lemma handleQuery_failed:
  assumes "connectError w = None"
    and "runQuery w (finalQuery (query a) (numOr (maxRows a) (default_maxRows cfg))) [] = Inl e"
  shows "handleQuery cfg w a p =
     (QueryFailure
        \<lparr> qf_error = errorBlock e, qf_query = query a,
          qf_schema = strOr (schema a) (default_schema cfg),
          qf_context = strOr (contextArg a) (default_context cfg) \<rparr>,
      servedPool p (finalQuery (query a) (numOr (maxRows a) (default_maxRows cfg))) [])"
  using assms
  by (simp add: handleQuery_def connect_def clientQuery_def release_def servedPool_def Let_def)

lemma handleQuery_ok:
  assumes "connectError w = None"
    and "runQuery w (finalQuery (query a) (numOr (maxRows a) (default_maxRows cfg))) [] = Inr result"
  shows "\<exists>env. handleQuery cfg w a p =
     (QuerySuccess env,
      servedPool p (finalQuery (query a) (numOr (maxRows a) (default_maxRows cfg))) []) \<and>
     qs_query env = finalQuery (query a) (numOr (maxRows a) (default_maxRows cfg)) \<and>
     qs_schema env = strOr (schema a) (default_schema cfg) \<and>
     qs_context env = strOr (contextArg a) (default_context cfg) \<and>
     qs_data env = result_rows result \<and>
     wasLimited (qs_metadata env) =
       (query a \<noteq> finalQuery (query a) (numOr (maxRows a) (default_maxRows cfg))) \<and>
     limitApplied (qs_metadata env) = numOr (maxRows a) (default_maxRows cfg)"
  using assms
  by (simp add: handleQuery_def connect_def clientQuery_def release_def servedPool_def Let_def)

lemma handleQuery_pool:
  "snd (handleQuery cfg w a p) =
     (if connectError w = None
      then servedPool p (finalQuery (query a) (numOr (maxRows a) (default_maxRows cfg))) []
      else p)"
proof (cases "connectError w")
  case (Some e)
  then show ?thesis by (simp add: handleQuery_down)
next
  case None
  show ?thesis
  proof (cases "runQuery w (finalQuery (query a) (numOr (maxRows a) (default_maxRows cfg))) []")
    case (Inl e)
    with None show ?thesis by (simp add: handleQuery_failed)
  next
    case (Inr result)
    from handleQuery_ok [OF None Inr, of p] None show ?thesis by auto
  qed
qed

lemma handleDescribeTable_down:
  assumes "connectError w = Some e"
  shows "handleDescribeTable cfg w a p =
     (DescribeFailure
        \<lparr> df_error = errorBlock e,
          df_table = \<lparr> table_name = tableName a,
                       table_schema = strOr (schema a) (default_schema cfg),
                       table_fullName = None \<rparr> \<rparr>, p)"
  using assms by (simp add: handleDescribeTable_def connect_def Let_def)

lemma handleDescribeTable_failed:
  assumes "connectError w = None"
    and "runQuery w describeSql [strOr (schema a) (default_schema cfg), tableName a] = Inl e"
  shows "handleDescribeTable cfg w a p =
     (DescribeFailure
        \<lparr> df_error = errorBlock e,
          df_table = \<lparr> table_name = tableName a,
                       table_schema = strOr (schema a) (default_schema cfg),
                       table_fullName = None \<rparr> \<rparr>,
      servedPool p describeSql [strOr (schema a) (default_schema cfg), tableName a])"
  using assms
  by (simp add: handleDescribeTable_def connect_def clientQuery_def release_def
      servedPool_def Let_def)

lemma handleDescribeTable_ok:
  assumes "connectError w = None"
    and "runQuery w describeSql [strOr (schema a) (default_schema cfg), tableName a] = Inr result"
  shows "handleDescribeTable cfg w a p =
     (DescribeSuccess
        \<lparr> ds_table =
            \<lparr> table_name = tableName a,
              table_schema = strOr (schema a) (default_schema cfg),
              table_fullName =
                Some (strOr (schema a) (default_schema cfg) @ ''.'' @ tableName a) \<rparr>,
          ds_columns =
            map (\<lambda>(index, r). describeColumn index r) (enumerate 0 (result_rows result)),
          ds_metadata =
            \<lparr> columnCount = length (result_rows result),
              columns_found = (length (result_rows result) > 0) \<rparr> \<rparr>,
      servedPool p describeSql [strOr (schema a) (default_schema cfg), tableName a])"
  using assms
  by (simp add: handleDescribeTable_def connect_def clientQuery_def release_def
      servedPool_def Let_def)

lemma handleDescribeTable_pool:
  "snd (handleDescribeTable cfg w a p) =
     (if connectError w = None
      then servedPool p describeSql [strOr (schema a) (default_schema cfg), tableName a]
      else p)"
proof (cases "connectError w")
  case (Some e)
  then show ?thesis by (simp add: handleDescribeTable_down)
next
  case None
  show ?thesis
  proof (cases "runQuery w describeSql [strOr (schema a) (default_schema cfg), tableName a]")
    case (Inl e)
    with None show ?thesis by (simp add: handleDescribeTable_failed)
  next
    case (Inr result)
    with None show ?thesis by (simp add: handleDescribeTable_ok)
  qed
qed

lemma listStatement_cases:
  "listStatement s pat =
     (if truthyStr pat
      then (listSqlBase @ '' AND table_name LIKE $2 ORDER BY table_name'', [s, strOr pat []])
      else (listSqlBase @ '' ORDER BY table_name'', [s]))"
  by (cases pat) (simp_all add: listStatement_def)

lemma handleListTables_down:
  assumes "connectError w = Some e"
  shows "handleListTables cfg w a p =
     (ListFailure
        \<lparr> lf_error = errorBlock e,
          lf_schema = strOr (schema a) (default_schema cfg),
          lf_pattern = strOrNull (pattern a) \<rparr>, p)"
  using assms
  by (simp add: handleListTables_def connect_def Let_def split: prod.splits)

lemma handleListTables_failed:
  assumes "connectError w = None"
    and "listStatement (strOr (schema a) (default_schema cfg)) (pattern a) = (text, params)"
    and "runQuery w text params = Inl e"
  shows "handleListTables cfg w a p =
     (ListFailure
        \<lparr> lf_error = errorBlock e,
          lf_schema = strOr (schema a) (default_schema cfg),
          lf_pattern = strOrNull (pattern a) \<rparr>,
      servedPool p text params)"
  using assms
  by (simp add: handleListTables_def connect_def clientQuery_def release_def
      servedPool_def Let_def)

lemma handleListTables_ok:
  assumes "connectError w = None"
    and "listStatement (strOr (schema a) (default_schema cfg)) (pattern a) = (text, params)"
    and "runQuery w text params = Inr result"
  shows "handleListTables cfg w a p =
     (ListSuccess
        \<lparr> ls_schema = strOr (schema a) (default_schema cfg),
          ls_pattern = strOrNull (pattern a),
          ls_tables =
            map (\<lambda>(index, r). describeTable (strOr (schema a) (default_schema cfg)) index r)
                (enumerate 0 (result_rows result)),
          ls_metadata =
            \<lparr> tableCount = length (result_rows result),
              tables_found = (length (result_rows result) > 0),
              filtered = (pattern a \<noteq> Null) \<rparr> \<rparr>,
      servedPool p text params)"
  using assms
  by (simp add: handleListTables_def connect_def clientQuery_def release_def
      servedPool_def Let_def)

lemma handleListTables_pool:
  assumes "listStatement (strOr (schema a) (default_schema cfg)) (pattern a) = (text, params)"
  shows "snd (handleListTables cfg w a p) =
     (if connectError w = None then servedPool p text params else p)"
proof (cases "connectError w")
  case (Some e)
  then show ?thesis by (simp add: handleListTables_down)
next
  case None
  show ?thesis
  proof (cases "runQuery w text params")
    case (Inl e)
    with None assms show ?thesis by (simp add: handleListTables_failed)
  next
    case (Inr result)
    with None assms show ?thesis by (simp add: handleListTables_ok)
  qed
qed

text \<open>Case mapping is letter by letter, so it keeps every occurrence of a substring.\<close>

lemma toUpperCase_sublist:
  assumes "sublist u q" and "toUpperCase u = t"
  shows "includesStr (toUpperCase q) t"
  using assms map_mono_sublist [of u q upperChar]
  by (auto simp add: includesStr_def toUpperCase_def)

lemma ordersArgs_eligible:
  "startsWith (toUpperCase (trim (query ordersArgs))) ''SELECT'' \<and>
   \<not> includesStr (toUpperCase (query ordersArgs)) ''LIMIT''"
  by (simp add: ordersArgs_def startsWith_def includesStr_def toUpperCase_def trim_def
      isWhiteSpace_def upperChar_def sublist_Cons_right)

lemma defaultConfig_unset:
  "mkDefaultConfig emptyEnv =
     \<lparr> default_schema = ''public'', default_context = [],
       default_maxRows = 100, default_timeout = 30000 \<rparr>"
  by (simp add: mkDefaultConfig_def emptyEnv_def envOr_def parsedOr_def parseInt_def)

section \<open>Row-limit augmentation of the query tool\<close>

text \<open>
  Claim C1. For every query text and every positive effective row limit \<open>L\<close>, the query
  handler sends the request's text with the suffix \<^verbatim>\<open> LIMIT L\<close> appended if and only if
  the trimmed, upper-cased text starts with \<^verbatim>\<open>SELECT\<close> and the upper-cased text does
  not contain \<^verbatim>\<open>LIMIT\<close>; otherwise it sends the text unchanged. The success envelope
  echoes the text that was sent, and its \<^verbatim>\<open>wasLimited\<close> flag is true exactly when the
  suffix was appended.
\<close>

theorem query_limit_suffix_iff:
  fixes cfg :: defaultConfig and w :: world and a :: args and p :: pool
  defines "L \<equiv> numOr (maxRows a) (default_maxRows cfg)"
  defines "eligible \<equiv>
    startsWith (toUpperCase (trim (query a))) ''SELECT'' \<and>
    \<not> includesStr (toUpperCase (query a)) ''LIMIT''"
  assumes conn: "connectError w = None" and pos: "0 < L"
  shows "\<exists>executed.
      statements (snd (handleQuery cfg w a p)) = statements p @ [(executed, [])] \<and>
      (executed = query a @ '' LIMIT '' @ numberToString L \<longleftrightarrow> eligible) \<and>
      (executed = query a \<longleftrightarrow> \<not> eligible) \<and>
      (\<forall>env. fst (handleQuery cfg w a p) = QuerySuccess env \<longrightarrow>
          qs_query env = executed \<and> wasLimited (qs_metadata env) = eligible) \<and>
      (\<forall>result. runQuery w executed [] = Inr result \<longrightarrow>
          (\<exists>env. fst (handleQuery cfg w a p) = QuerySuccess env))"
proof -
  let ?t = "finalQuery (query a) L"
  have sent: "statements (snd (handleQuery cfg w a p)) = statements p @ [(?t, [])]"
    using conn by (simp add: handleQuery_pool servedPool_statements L_def)
  have suffix: "(?t = query a @ '' LIMIT '' @ numberToString L) = eligible"
    using pos by (simp add: finalQuery_def eligible_def)
  have same: "(?t = query a) = (\<not> eligible)"
    using pos by (simp add: finalQuery_def eligible_def)
  have envelope: "qs_query env = ?t \<and> wasLimited (qs_metadata env) = eligible"
    if "fst (handleQuery cfg w a p) = QuerySuccess env" for env
  proof (cases "runQuery w ?t []")
    case (Inl e)
    with conn that show ?thesis by (simp add: handleQuery_failed L_def)
  next
    case (Inr result)
    from handleQuery_ok [OF conn, of a cfg result p] Inr that same show ?thesis
      by (auto simp add: L_def)
  qed
  have returns: "\<exists>env. fst (handleQuery cfg w a p) = QuerySuccess env"
    if "runQuery w ?t [] = Inr result" for result
    using handleQuery_ok [OF conn, of a cfg result p] that by (auto simp add: L_def)
  from sent suffix same envelope returns show ?thesis
    by blast
qed

text \<open>
  The request \<^verbatim>\<open>query({query: "SELECT * FROM orders", maxRows: 5})\<close> is sent as
  \<^verbatim>\<open>SELECT * FROM orders LIMIT 5\<close>.
\<close>

theorem query_limit_suffix_iff_witness:
  "connectError quietWorld = None \<and>
   0 < numOr (maxRows ordersArgs) (default_maxRows (mkDefaultConfig emptyEnv)) \<and>
   statements (snd (handleQuery (mkDefaultConfig emptyEnv) quietWorld ordersArgs emptyPool)) =
     [(''SELECT * FROM orders LIMIT 5'', [])] \<and>
   (\<exists>env. fst (handleQuery (mkDefaultConfig emptyEnv) quietWorld ordersArgs emptyPool) =
            QuerySuccess env \<and> wasLimited (qs_metadata env))"
proof -
  have c: "connectError quietWorld = None"
    by (simp add: quietWorld_def)
  have l: "0 < numOr (maxRows ordersArgs) (default_maxRows (mkDefaultConfig emptyEnv))"
    by (simp add: ordersArgs_def)
  have n: "numberToString 5 = ''5''"
    by (simp add: numberToString_def natToString.simps)
  have r: "runQuery quietWorld t [] = Inr emptyResult" for t
    by (simp add: quietWorld_def)
  from query_limit_suffix_iff [OF c l, of emptyPool] ordersArgs_eligible n r c l
  show ?thesis
    by (auto simp add: emptyPool_def ordersArgs_def)
qed

text \<open>
  Claim C5. A query text that contains \<^verbatim>\<open>LIMIT\<close> in any letter case, and a query text
  whose trimmed, upper-cased form does not start with \<^verbatim>\<open>SELECT\<close>, is sent to the
  driver unchanged, whatever the effective limit is. When the pool hands out no client,
  nothing is sent at all.
\<close>

theorem query_identity_on_limit_or_non_select:
  assumes "(\<exists>u. sublist u (query a) \<and> toUpperCase u = ''LIMIT'') \<or>
           \<not> startsWith (toUpperCase (trim (query a))) ''SELECT''"
  shows "statements (snd (handleQuery cfg w a p)) =
           statements p @ (if connectError w = None then [(query a, [])] else []) \<and>
         (\<forall>env. fst (handleQuery cfg w a p) = QuerySuccess env \<longrightarrow>
            qs_query env = query a \<and> \<not> wasLimited (qs_metadata env))"
proof -
  let ?L = "numOr (maxRows a) (default_maxRows cfg)"
  from assms have "includesStr (toUpperCase (query a)) ''LIMIT'' \<or>
      \<not> startsWith (toUpperCase (trim (query a))) ''SELECT''"
    using toUpperCase_sublist by blast
  then have same: "finalQuery (query a) ?L = query a"
    by (auto simp add: finalQuery_def)
  have sent: "statements (snd (handleQuery cfg w a p)) =
      statements p @ (if connectError w = None then [(query a, [])] else [])"
    by (simp add: handleQuery_pool servedPool_statements same)
  have envelope: "qs_query env = query a \<and> \<not> wasLimited (qs_metadata env)"
    if "fst (handleQuery cfg w a p) = QuerySuccess env" for env
  proof (cases "connectError w")
    case (Some e)
    with that show ?thesis by (simp add: handleQuery_down)
  next
    case None
    show ?thesis
    proof (cases "runQuery w (finalQuery (query a) ?L) []")
      case (Inl e)
      with None that show ?thesis by (simp add: handleQuery_failed)
    next
      case (Inr result)
      from handleQuery_ok [OF None Inr, of p] that same show ?thesis by auto
    qed
  qed
  from sent envelope show ?thesis by blast
qed

text \<open>A lower-case \<^verbatim>\<open>limit\<close> already in the text keeps the handler from adding one.\<close>

theorem query_identity_witness:
  "sublist ''limit'' (query limitedArgs) \<and> toUpperCase ''limit'' = ''LIMIT'' \<and>
   statements (snd (handleQuery (mkDefaultConfig emptyEnv) quietWorld limitedArgs emptyPool)) =
     [(''select * from orders limit 3'', [])]"
proof -
  have s: "sublist ''limit'' (query limitedArgs)"
    by (simp add: limitedArgs_def sublist_Cons_right)
  have u: "toUpperCase ''limit'' = ''LIMIT''"
    by (simp add: toUpperCase_def upperChar_def)
  from s u have h: "(\<exists>u. sublist u (query limitedArgs) \<and> toUpperCase u = ''LIMIT'') \<or>
      \<not> startsWith (toUpperCase (trim (query limitedArgs))) ''SELECT''"
    by blast
  from query_identity_on_limit_or_non_select
         [OF h, of "mkDefaultConfig emptyEnv" quietWorld emptyPool] s u
  show ?thesis
    by (simp add: quietWorld_def emptyPool_def limitedArgs_def)
qed

text \<open>
  Claim C10. The \<^verbatim>\<open>schema\<close> and \<^verbatim>\<open>context\<close> arguments of the query tool never reach
  the statement: two requests that differ only in these fields leave the pool in the same
  state, with the same statement text sent, and their responses differ at most in the
  echoed schema and context fields.
\<close>

theorem query_text_ignores_schema_and_context:
  "snd (handleQuery cfg w (a\<lparr>schema := s, contextArg := c\<rparr>) p) = snd (handleQuery cfg w a p) \<and>
   statements (snd (handleQuery cfg w (a\<lparr>schema := s, contextArg := c\<rparr>) p)) =
     statements (snd (handleQuery cfg w a p)) \<and>
   eraseEcho (fst (handleQuery cfg w (a\<lparr>schema := s, contextArg := c\<rparr>) p)) =
     eraseEcho (fst (handleQuery cfg w a p))"
proof -
  let ?a' = "a\<lparr>schema := s, contextArg := c\<rparr>"
  let ?t = "finalQuery (query a) (numOr (maxRows a) (default_maxRows cfg))"
  have pool: "snd (handleQuery cfg w ?a' p) = snd (handleQuery cfg w a p)"
    by (simp add: handleQuery_pool)
  have echo: "eraseEcho (fst (handleQuery cfg w ?a' p)) = eraseEcho (fst (handleQuery cfg w a p))"
  proof (cases "connectError w")
    case (Some e)
    then show ?thesis by (simp add: handleQuery_down)
  next
    case None
    then show ?thesis
      by (cases "runQuery w ?t []")
         (simp_all add: handleQuery_def connect_def clientQuery_def release_def Let_def)
  qed
  from pool echo show ?thesis by simp
qed

section \<open>Connection handling and error absorption\<close>

text \<open>
  Claim C3. Every invocation of each of the three handlers releases exactly as many
  clients as it acquired: one of each when \<^verbatim>\<open>pool.connect()\<close> succeeded, whether the
  statement then returned or threw, and none when it failed. The same balance holds for
  every call through the dispatcher, whatever the tool name.
\<close>

theorem one_release_per_acquired_connection:
  fixes cfg :: defaultConfig and w :: world and a :: args and p :: pool and nm :: string
  defines "k \<equiv> (if connectError w = None then 1 else 0 :: nat)"
  shows "acquired (snd (handleQuery cfg w a p)) = acquired p + k \<and>
     released (snd (handleQuery cfg w a p)) = released p + k \<and>
     acquired (snd (handleDescribeTable cfg w a p)) = acquired p + k \<and>
     released (snd (handleDescribeTable cfg w a p)) = released p + k \<and>
     acquired (snd (handleListTables cfg w a p)) = acquired p + k \<and>
     released (snd (handleListTables cfg w a p)) = released p + k \<and>
     acquired (snd (callTool cfg w nm a p)) + released p =
       released (snd (callTool cfg w nm a p)) + acquired p"
proof -
  obtain stmt ps where
    st: "listStatement (strOr (schema a) (default_schema cfg)) (pattern a) = (stmt, ps)"
    by (cases "listStatement (strOr (schema a) (default_schema cfg)) (pattern a)")
  have q: "acquired (snd (handleQuery cfg w a p)) = acquired p + k \<and>
      released (snd (handleQuery cfg w a p)) = released p + k"
    by (simp add: handleQuery_pool servedPool_counts k_def)
  have d: "acquired (snd (handleDescribeTable cfg w a p)) = acquired p + k \<and>
      released (snd (handleDescribeTable cfg w a p)) = released p + k"
    by (simp add: handleDescribeTable_pool servedPool_counts k_def)
  have l: "acquired (snd (handleListTables cfg w a p)) = acquired p + k \<and>
      released (snd (handleListTables cfg w a p)) = released p + k"
    by (simp add: handleListTables_pool [OF st] servedPool_counts k_def)
  have c: "acquired (snd (callTool cfg w nm a p)) + released p =
      released (snd (callTool cfg w nm a p)) + acquired p"
    using q d l by (simp add: callTool_def case_prod_beta)
  from q d l c show ?thesis by simp
qed

text \<open>A statement that throws in mid-call: one client acquired, one released.\<close>

theorem one_release_witness:
  "acquired (snd (handleQuery (mkDefaultConfig emptyEnv) failingWorld ordersArgs emptyPool)) = 1 \<and>
   released (snd (handleQuery (mkDefaultConfig emptyEnv) failingWorld ordersArgs emptyPool)) = 1 \<and>
   acquired (snd (handleQuery (mkDefaultConfig emptyEnv) downWorld ordersArgs emptyPool)) = 0 \<and>
   released (snd (handleQuery (mkDefaultConfig emptyEnv) downWorld ordersArgs emptyPool)) = 0"
  using one_release_per_acquired_connection
          [of "mkDefaultConfig emptyEnv" failingWorld ordersArgs emptyPool]
        one_release_per_acquired_connection
          [of "mkDefaultConfig emptyEnv" downWorld ordersArgs emptyPool]
  by (simp add: failingWorld_def downWorld_def emptyPool_def)

text \<open>
  Claim C4. A tool name outside \<^verbatim>\<open>query\<close>, \<^verbatim>\<open>describe_table\<close> and \<^verbatim>\<open>list_tables\<close>
  makes the dispatcher throw \<^verbatim>\<open>Unknown tool: name\<close>, which leaves the dispatcher as an
  error and not as an envelope. For a registered name the dispatcher returns the
  handler's envelope: when \<^verbatim>\<open>pool.connect()\<close> throws, and when the one statement the
  handler sends throws, the envelope has \<^verbatim>\<open>success: false\<close> and carries the message,
  code, detail and hint of that error; nothing is thrown past the handler.
\<close>

theorem unknown_tool_throws_other_errors_absorbed:
  fixes cfg :: defaultConfig and w :: world and a :: args and p :: pool and nm :: string
  shows "(nm \<notin> {''query'', ''describe_table'', ''list_tables''} \<longrightarrow>
       callTool cfg w nm a p = (Inl (Error (''Unknown tool: '' @ nm)), p)) \<and>
     (nm \<in> {''query'', ''describe_table'', ''list_tables''} \<longrightarrow>
       (\<exists>r p'. callTool cfg w nm a p = (Inr r, p') \<and>
          (\<forall>e. connectError w = Some e \<longrightarrow>
             \<not> success r \<and>
             responseError r =
               Some \<lparr> err_message = message e, err_code = code e,
                      err_detail = detail e, err_hint = hint e \<rparr>) \<and>
          (connectError w = None \<longrightarrow>
             (\<exists>text params. statements p' = statements p @ [(text, params)] \<and>
                (case runQuery w text params of
                   Inl e \<Rightarrow>
                     \<not> success r \<and>
                     responseError r =
                       Some \<lparr> err_message = message e, err_code = code e,
                              err_detail = detail e, err_hint = hint e \<rparr>
                 | Inr res \<Rightarrow> success r \<and> responseError r = None)))))"
proof -
  let ?absorbed = "\<lambda>(r :: response) (p' :: pool).
     (\<forall>e. connectError w = Some e \<longrightarrow>
         \<not> success r \<and>
         responseError r =
           Some \<lparr> err_message = message e, err_code = code e,
                  err_detail = detail e, err_hint = hint e \<rparr>) \<and>
     (connectError w = None \<longrightarrow>
         (\<exists>text params. statements p' = statements p @ [(text, params)] \<and>
            (case runQuery w text params of
               Inl e \<Rightarrow>
                 \<not> success r \<and>
                 responseError r =
                   Some \<lparr> err_message = message e, err_code = code e,
                          err_detail = detail e, err_hint = hint e \<rparr>
             | Inr res \<Rightarrow> success r \<and> responseError r = None)))"
  have unknown: "nm \<notin> {''query'', ''describe_table'', ''list_tables''} \<longrightarrow>
       callTool cfg w nm a p = (Inl (Error (''Unknown tool: '' @ nm)), p)"
    by (simp add: callTool_def)
  have key: "?absorbed r p'"
    if down: "\<And>e. connectError w = Some e \<Longrightarrow>
          \<not> success r \<and> responseError r = Some (errorBlock e)"
      and sent: "connectError w = None \<Longrightarrow>
          statements p' = statements p @ [(t, ps)]"
      and failed: "\<And>e. connectError w = None \<Longrightarrow> runQuery w t ps = Inl e \<Longrightarrow>
          \<not> success r \<and> responseError r = Some (errorBlock e)"
      and ok: "\<And>res. connectError w = None \<Longrightarrow> runQuery w t ps = Inr res \<Longrightarrow>
          success r \<and> responseError r = None"
    for r p' t ps
  proof (intro conjI allI impI)
    fix e assume "connectError w = Some e"
    from down [OF this] show "\<not> success r" by simp
  next
    fix e assume "connectError w = Some e"
    from down [OF this]
    show "responseError r =
        Some \<lparr> err_message = message e, err_code = code e,
               err_detail = detail e, err_hint = hint e \<rparr>"
      by (simp add: errorBlock_def)
  next
    assume c: "connectError w = None"
    have "case runQuery w t ps of
            Inl e \<Rightarrow>
              \<not> success r \<and>
              responseError r =
                Some \<lparr> err_message = message e, err_code = code e,
                       err_detail = detail e, err_hint = hint e \<rparr>
          | Inr res \<Rightarrow> success r \<and> responseError r = None"
      using failed [OF c] ok [OF c]
      by (cases "runQuery w t ps") (simp_all add: errorBlock_def)
    with sent [OF c]
    show "\<exists>text params. statements p' = statements p @ [(text, params)] \<and>
            (case runQuery w text params of
               Inl e \<Rightarrow>
                 \<not> success r \<and>
                 responseError r =
                   Some \<lparr> err_message = message e, err_code = code e,
                          err_detail = detail e, err_hint = hint e \<rparr>
             | Inr res \<Rightarrow> success r \<and> responseError r = None)"
      by blast
  qed
  have q: "?absorbed (fst (handleQuery cfg w a p)) (snd (handleQuery cfg w a p))"
  proof (rule key)
    let ?t = "finalQuery (query a) (numOr (maxRows a) (default_maxRows cfg))"
    show "\<not> success (fst (handleQuery cfg w a p)) \<and>
        responseError (fst (handleQuery cfg w a p)) = Some (errorBlock e)"
      if "connectError w = Some e" for e
      using that by (simp add: handleQuery_down)
    show "statements (snd (handleQuery cfg w a p)) = statements p @ [(?t, [])]"
      if "connectError w = None"
      using that by (simp add: handleQuery_pool servedPool_statements)
    show "\<not> success (fst (handleQuery cfg w a p)) \<and>
        responseError (fst (handleQuery cfg w a p)) = Some (errorBlock e)"
      if "connectError w = None" and "runQuery w ?t [] = Inl e" for e
      using that by (simp add: handleQuery_failed)
    show "success (fst (handleQuery cfg w a p)) \<and>
        responseError (fst (handleQuery cfg w a p)) = None"
      if c: "connectError w = None" and r: "runQuery w ?t [] = Inr res" for res
      using handleQuery_ok [OF c r, of p] by auto
  qed
  have d: "?absorbed (fst (handleDescribeTable cfg w a p)) (snd (handleDescribeTable cfg w a p))"
  proof (rule key)
    let ?ps = "[strOr (schema a) (default_schema cfg), tableName a]"
    show "\<not> success (fst (handleDescribeTable cfg w a p)) \<and>
        responseError (fst (handleDescribeTable cfg w a p)) = Some (errorBlock e)"
      if "connectError w = Some e" for e
      using that by (simp add: handleDescribeTable_down)
    show "statements (snd (handleDescribeTable cfg w a p)) = statements p @ [(describeSql, ?ps)]"
      if "connectError w = None"
      using that by (simp add: handleDescribeTable_pool servedPool_statements)
    show "\<not> success (fst (handleDescribeTable cfg w a p)) \<and>
        responseError (fst (handleDescribeTable cfg w a p)) = Some (errorBlock e)"
      if "connectError w = None" and "runQuery w describeSql ?ps = Inl e" for e
      using that by (simp add: handleDescribeTable_failed)
    show "success (fst (handleDescribeTable cfg w a p)) \<and>
        responseError (fst (handleDescribeTable cfg w a p)) = None"
      if "connectError w = None" and "runQuery w describeSql ?ps = Inr res" for res
      using that by (simp add: handleDescribeTable_ok)
  qed
  obtain stmt ps where
    st: "listStatement (strOr (schema a) (default_schema cfg)) (pattern a) = (stmt, ps)"
    by (cases "listStatement (strOr (schema a) (default_schema cfg)) (pattern a)")
  have l: "?absorbed (fst (handleListTables cfg w a p)) (snd (handleListTables cfg w a p))"
  proof (rule key)
    show "\<not> success (fst (handleListTables cfg w a p)) \<and>
        responseError (fst (handleListTables cfg w a p)) = Some (errorBlock e)"
      if "connectError w = Some e" for e
      using that by (simp add: handleListTables_down)
    show "statements (snd (handleListTables cfg w a p)) = statements p @ [(stmt, ps)]"
      if "connectError w = None"
      using that by (simp add: handleListTables_pool [OF st] servedPool_statements)
    show "\<not> success (fst (handleListTables cfg w a p)) \<and>
        responseError (fst (handleListTables cfg w a p)) = Some (errorBlock e)"
      if c: "connectError w = None" and r: "runQuery w stmt ps = Inl e" for e
      by (simp add: handleListTables_failed [OF c st r])
    show "success (fst (handleListTables cfg w a p)) \<and>
        responseError (fst (handleListTables cfg w a p)) = None"
      if c: "connectError w = None" and r: "runQuery w stmt ps = Inr res" for res
      by (simp add: handleListTables_ok [OF c st r])
  qed
  have registered: "\<exists>r p'. callTool cfg w nm a p = (Inr r, p') \<and> ?absorbed r p'"
    if "nm \<in> {''query'', ''describe_table'', ''list_tables''}"
  proof -
    from that consider "nm = ''query''" | "nm = ''describe_table''" | "nm = ''list_tables''"
      by blast
    then show ?thesis
    proof cases
      case 1
      have eq: "callTool cfg w nm a p =
          (Inr (fst (handleQuery cfg w a p)), snd (handleQuery cfg w a p))"
        using 1 by (simp add: callTool_def case_prod_beta)
      from q show ?thesis
        by (intro exI [of _ "fst (handleQuery cfg w a p)"] exI [of _ "snd (handleQuery cfg w a p)"])
           (simp add: eq)
    next
      case 2
      have eq: "callTool cfg w nm a p =
          (Inr (fst (handleDescribeTable cfg w a p)), snd (handleDescribeTable cfg w a p))"
        using 2 by (simp add: callTool_def case_prod_beta)
      from d show ?thesis
        by (intro exI [of _ "fst (handleDescribeTable cfg w a p)"] exI [of _ "snd (handleDescribeTable cfg w a p)"])
           (simp add: eq)
    next
      case 3
      have eq: "callTool cfg w nm a p =
          (Inr (fst (handleListTables cfg w a p)), snd (handleListTables cfg w a p))"
        using 3 by (simp add: callTool_def case_prod_beta)
      from l show ?thesis
        by (intro exI [of _ "fst (handleListTables cfg w a p)"] exI [of _ "snd (handleListTables cfg w a p)"])
           (simp add: eq)
    qed
  qed
  from unknown registered show ?thesis by simp
qed

text \<open>
  An unregistered name is thrown out of the dispatcher; a refused connection and a
  rejected statement come back as failure envelopes of the query tool.
\<close>

theorem unknown_tool_witness:
  "''drop_table'' \<notin> {''query'', ''describe_table'', ''list_tables''} \<and>
   callTool (mkDefaultConfig emptyEnv) quietWorld ''drop_table'' ordersArgs emptyPool =
     (Inl (Error ''Unknown tool: drop_table''), emptyPool) \<and>
   ''query'' \<in> {''query'', ''describe_table'', ''list_tables''} \<and>
   connectError downWorld = Some refused \<and>
   fst (callTool (mkDefaultConfig emptyEnv) downWorld ''query'' ordersArgs emptyPool) =
     Inr (QueryFailure
       \<lparr> qf_error =
           \<lparr> err_message = ''connect ECONNREFUSED 127.0.0.1:5432'',
             err_code = Some ''ECONNREFUSED'', err_detail = None, err_hint = None \<rparr>,
         qf_query = ''SELECT * FROM orders'', qf_schema = ''public'', qf_context = [] \<rparr>) \<and>
   connectError failingWorld = None \<and>
   fst (callTool (mkDefaultConfig emptyEnv) failingWorld ''query'' ordersArgs emptyPool) =
     Inr (QueryFailure
       \<lparr> qf_error =
           \<lparr> err_message = ''syntax error at or near FORM'',
             err_code = Some ''42601'', err_detail = None, err_hint = None \<rparr>,
         qf_query = ''SELECT * FROM orders'', qf_schema = ''public'', qf_context = [] \<rparr>)"
proof -
  have d: "connectError downWorld = Some refused"
    by (simp add: downWorld_def)
  have f: "connectError failingWorld = None"
    by (simp add: failingWorld_def)
  have r: "runQuery failingWorld t ps = Inl syntaxError" for t ps
    by (simp add: failingWorld_def)
  have down: "handleQuery (mkDefaultConfig emptyEnv) downWorld ordersArgs emptyPool =
      (QueryFailure
         \<lparr> qf_error = errorBlock refused, qf_query = ''SELECT * FROM orders'',
           qf_schema = ''public'', qf_context = [] \<rparr>, emptyPool)"
    by (simp add: handleQuery_down [OF d] defaultConfig_unset ordersArgs_def)
  have failed: "fst (handleQuery (mkDefaultConfig emptyEnv) failingWorld ordersArgs emptyPool) =
      QueryFailure
         \<lparr> qf_error = errorBlock syntaxError, qf_query = ''SELECT * FROM orders'',
           qf_schema = ''public'', qf_context = [] \<rparr>"
    by (simp add: handleQuery_failed [OF f r] defaultConfig_unset ordersArgs_def)
  from unknown_tool_throws_other_errors_absorbed
         [of "''drop_table''" "mkDefaultConfig emptyEnv" quietWorld ordersArgs emptyPool]
       unknown_tool_throws_other_errors_absorbed
         [of "''query''" "mkDefaultConfig emptyEnv" downWorld ordersArgs emptyPool]
       d f down failed
  show ?thesis
    by (simp add: callTool_def case_prod_beta errorBlock_def refused_def syntaxError_def)
qed

section \<open>Table description\<close>

text \<open>
  Claim C7. When the introspection statement returns no row, as it does for an unknown
  table or a wrong schema, \<^verbatim>\<open>describe_table\<close> answers with a success envelope whose
  column list is empty, whose column count is 0 and whose \<^verbatim>\<open>found\<close> flag is false. In
  general the count is the number of rows, and \<^verbatim>\<open>found\<close> is true exactly when at least
  one row came back.
\<close>

theorem describe_unknown_table_succeeds:
  assumes conn: "connectError w = None"
    and res: "runQuery w describeSql [strOr (schema a) (default_schema cfg), tableName a] =
                Inr result"
  shows "\<exists>env. fst (handleDescribeTable cfg w a p) = DescribeSuccess env \<and>
      success (fst (handleDescribeTable cfg w a p)) \<and>
      columnCount (ds_metadata env) = length (result_rows result) \<and>
      length (ds_columns env) = length (result_rows result) \<and>
      (columns_found (ds_metadata env) \<longleftrightarrow> 1 \<le> length (result_rows result)) \<and>
      (result_rows result = [] \<longrightarrow>
         ds_columns env = [] \<and> columnCount (ds_metadata env) = 0 \<and>
         \<not> columns_found (ds_metadata env))"
  by (auto simp add: handleDescribeTable_ok [OF conn res] Suc_le_eq)

theorem describe_unknown_table_witness:
  "connectError quietWorld = None \<and>
   result_rows emptyResult = [] \<and>
   fst (handleDescribeTable (mkDefaultConfig emptyEnv) quietWorld usersArgs emptyPool) =
     DescribeSuccess
       \<lparr> ds_table = \<lparr> table_name = ''users'', table_schema = ''public'',
                      table_fullName = Some ''public.users'' \<rparr>,
         ds_columns = [],
         ds_metadata = \<lparr> columnCount = 0, columns_found = False \<rparr> \<rparr>"
proof -
  have c: "connectError quietWorld = None"
    by (simp add: quietWorld_def)
  have r: "runQuery quietWorld describeSql
      [strOr (schema usersArgs) (default_schema (mkDefaultConfig emptyEnv)), tableName usersArgs] =
      Inr emptyResult"
    by (simp add: quietWorld_def)
  have e: "result_rows emptyResult = []"
    by (simp add: emptyResult_def)
  have out: "fst (handleDescribeTable (mkDefaultConfig emptyEnv) quietWorld usersArgs emptyPool) =
     DescribeSuccess
       \<lparr> ds_table = \<lparr> table_name = ''users'', table_schema = ''public'',
                      table_fullName = Some ''public.users'' \<rparr>,
         ds_columns = [],
         ds_metadata = \<lparr> columnCount = 0, columns_found = False \<rparr> \<rparr>"
    unfolding handleDescribeTable_ok [OF c r]
    by (simp add: usersArgs_def emptyResult_def)
  from describe_unknown_table_succeeds [OF c r, of emptyPool] c e out
  show ?thesis
    by simp
qed

section \<open>Bound parameters of the introspection statements\<close>

text \<open>
  Claim C9. The schema, the table name and the pattern reach the driver only as bound
  parameters. The text \<^verbatim>\<open>describe_table\<close> sends is one constant, whatever the request;
  the text \<^verbatim>\<open>list_tables\<close> sends is one of two constants, chosen by whether a pattern is
  supplied, that is, by the handler's test \<^verbatim>\<open>if (pattern)\<close>, which holds for a
  non-empty string. The arguments themselves make up the parameter list.
\<close>

theorem introspection_arguments_are_bound_parameters:
  fixes cfg :: defaultConfig and w :: world and a :: args and p :: pool
  shows "statements (snd (handleDescribeTable cfg w a p)) =
       statements p @
       (if connectError w = None
        then [(describeSql, [strOr (schema a) (default_schema cfg), tableName a])]
        else []) \<and>
     statements (snd (handleListTables cfg w a p)) =
       statements p @
       (if connectError w = None
        then [(if truthyStr (pattern a)
               then (listSqlBase @ '' AND table_name LIKE $2 ORDER BY table_name'',
                     [strOr (schema a) (default_schema cfg), strOr (pattern a) []])
               else (listSqlBase @ '' ORDER BY table_name'',
                     [strOr (schema a) (default_schema cfg)]))]
        else [])"
proof -
  have d: "statements (snd (handleDescribeTable cfg w a p)) =
       statements p @
       (if connectError w = None
        then [(describeSql, [strOr (schema a) (default_schema cfg), tableName a])]
        else [])"
    by (simp add: handleDescribeTable_pool servedPool_statements)
  have l: "statements (snd (handleListTables cfg w a p)) =
       statements p @
       (if connectError w = None
        then [(if truthyStr (pattern a)
               then (listSqlBase @ '' AND table_name LIKE $2 ORDER BY table_name'',
                     [strOr (schema a) (default_schema cfg), strOr (pattern a) []])
               else (listSqlBase @ '' ORDER BY table_name'',
                     [strOr (schema a) (default_schema cfg)]))]
        else [])"
  proof (cases "truthyStr (pattern a)")
    case True
    then have "listStatement (strOr (schema a) (default_schema cfg)) (pattern a) =
        (listSqlBase @ '' AND table_name LIKE $2 ORDER BY table_name'',
         [strOr (schema a) (default_schema cfg), strOr (pattern a) []])"
      by (simp add: listStatement_cases)
    from handleListTables_pool [OF this] True show ?thesis
      by (simp add: servedPool_statements)
  next
    case False
    then have "listStatement (strOr (schema a) (default_schema cfg)) (pattern a) =
        (listSqlBase @ '' ORDER BY table_name'', [strOr (schema a) (default_schema cfg)])"
      by (simp add: listStatement_cases)
    from handleListTables_pool [OF this] False show ?thesis
      by (simp add: servedPool_statements)
  qed
  from d l show ?thesis by simp
qed

section \<open>Table listing\<close>

text \<open>
  Claim C6. The \<^verbatim>\<open>filtered\<close> flag of \<^verbatim>\<open>list_tables\<close> is meant to say whether a pattern
  filter was applied. The handler computes it as \<^verbatim>\<open>pattern !== null\<close>, and an absent
  argument is \<^verbatim>\<open>undefined\<close>: the call \<^verbatim>\<open>list_tables({schema: "public"})\<close> sends the
  statement without a \<^verbatim>\<open>LIKE\<close> condition, with the schema as its only parameter, echoes
  the pattern as \<^verbatim>\<open>null\<close>, and still reports \<^verbatim>\<open>filtered: true\<close>.
\<close>

theorem list_tables_without_pattern_reports_filtered:
  "pattern publicListArgs = Undefined \<and>
   handleListTables (mkDefaultConfig emptyEnv) quietWorld publicListArgs emptyPool =
     (ListSuccess
        \<lparr> ls_schema = ''public'', ls_pattern = Null, ls_tables = [],
          ls_metadata = \<lparr> tableCount = 0, tables_found = False, filtered = True \<rparr> \<rparr>,
      \<lparr> acquired = 1, released = 1,
        statements = [(listSqlBase @ '' ORDER BY table_name'', [''public''])] \<rparr>)"
  by (simp add: handleListTables_def listStatement_def connect_def clientQuery_def release_def
      Let_def quietWorld_def publicListArgs_def emptyPool_def emptyResult_def)

section \<open>The effective row limit\<close>

text \<open>
  Away from zero the handler resolves the limit as its description says: the request's
  \<^verbatim>\<open>maxRows\<close> when the field is present, the configured default when it is absent, and
  100 for that default when \<^verbatim>\<open>POSTGRES_MAX_ROWS\<close> is unset. The success envelope
  reports the limit as \<^verbatim>\<open>limitApplied\<close>, and the text sent differs from the request's
  text only when the limit is positive, by the suffix \<^verbatim>\<open> LIMIT L\<close>.
\<close>

lemma effective_limit_when_absent_or_nonzero:
  fixes cfg :: defaultConfig and w :: world and a :: args and p :: pool and e :: env
  defines "L \<equiv>
    (case maxRows a of
       Given n \<Rightarrow> n
     | Undefined \<Rightarrow> default_maxRows cfg
     | Null \<Rightarrow> default_maxRows cfg)"
  assumes nonzero: "maxRows a \<noteq> Given 0"
  shows "(POSTGRES_MAX_ROWS e = None \<longrightarrow> default_maxRows (mkDefaultConfig e) = 100) \<and>
     (\<forall>env. fst (handleQuery cfg w a p) = QuerySuccess env \<longrightarrow>
        limitApplied (qs_metadata env) = L) \<and>
     (connectError w = None \<longrightarrow>
        (\<exists>executed. statements (snd (handleQuery cfg w a p)) = statements p @ [(executed, [])] \<and>
           (executed \<noteq> query a \<longrightarrow>
              0 < L \<and> executed = query a @ '' LIMIT '' @ numberToString L)))"
proof -
  have L: "numOr (maxRows a) (default_maxRows cfg) = L"
    using nonzero by (cases "maxRows a") (simp_all add: L_def)
  have unset: "POSTGRES_MAX_ROWS e = None \<longrightarrow> default_maxRows (mkDefaultConfig e) = 100"
    by (simp add: mkDefaultConfig_def parseInt_def parsedOr_def)
  have applied: "limitApplied (qs_metadata env) = L"
    if "fst (handleQuery cfg w a p) = QuerySuccess env" for env
  proof (cases "connectError w")
    case (Some err)
    with that show ?thesis by (simp add: handleQuery_down)
  next
    case None
    show ?thesis
    proof (cases "runQuery w (finalQuery (query a) (numOr (maxRows a) (default_maxRows cfg))) []")
      case (Inl err)
      with None that show ?thesis by (simp add: handleQuery_failed)
    next
      case (Inr result)
      from handleQuery_ok [OF None Inr, of p] that L show ?thesis by auto
    qed
  qed
  have sent: "statements (snd (handleQuery cfg w a p)) =
      statements p @ [(finalQuery (query a) L, [])]"
    if "connectError w = None"
    using that by (simp add: handleQuery_pool servedPool_statements L)
  have suffix: "finalQuery (query a) L \<noteq> query a \<longrightarrow>
      0 < L \<and> finalQuery (query a) L = query a @ '' LIMIT '' @ numberToString L"
    by (simp add: finalQuery_def)
  from unset applied sent suffix show ?thesis
    by blast
qed

text \<open>
  Claim C2. The effective row limit is the request's \<^verbatim>\<open>maxRows\<close> when present and the
  configured default when absent, and the suffix is appended only for a positive limit;
  a request with \<^verbatim>\<open>maxRows: 0\<close> should therefore have the limit 0 and an unchanged
  \<^verbatim>\<open>SELECT\<close>. The handler misses this case. Its guard \<^verbatim>\<open>limitRows > 0\<close> switches the
  limit off for a non-positive limit, and does so for \<^verbatim>\<open>maxRows: -5\<close>; but the fallback
  \<^verbatim>\<open>maxRows || this.defaultConfig.maxRows\<close> takes 0 for an absent field, so the guard
  never sees it: with no environment override the request with \<^verbatim>\<open>maxRows: 0\<close> reports
  \<^verbatim>\<open>limitApplied: 100\<close> and is sent with \<^verbatim>\<open> LIMIT 100\<close> appended.
\<close>

theorem maxRows_zero_takes_default:
  "maxRows zeroArgs = Given 0 \<and>
   handleQuery (mkDefaultConfig emptyEnv) quietWorld zeroArgs emptyPool =
     (QuerySuccess
        \<lparr> qs_query = ''SELECT * FROM orders LIMIT 100'', qs_schema = ''public'',
          qs_context = [],
          qs_execution =
            \<lparr> exec_command = ''SELECT'', exec_rowCount = 0, exec_fields = Some [] \<rparr>,
          qs_data = [],
          qs_metadata = \<lparr> hasData = False, dataCount = 0, wasLimited = True,
                          limitApplied = 100 \<rparr> \<rparr>,
      \<lparr> acquired = 1, released = 1,
        statements = [(''SELECT * FROM orders LIMIT 100'', [])] \<rparr>) \<and>
   maxRows negativeArgs = Given (- 5) \<and>
   handleQuery (mkDefaultConfig emptyEnv) quietWorld negativeArgs emptyPool =
     (QuerySuccess
        \<lparr> qs_query = ''SELECT * FROM orders'', qs_schema = ''public'',
          qs_context = [],
          qs_execution =
            \<lparr> exec_command = ''SELECT'', exec_rowCount = 0, exec_fields = Some [] \<rparr>,
          qs_data = [],
          qs_metadata = \<lparr> hasData = False, dataCount = 0, wasLimited = False,
                          limitApplied = - 5 \<rparr> \<rparr>,
      \<lparr> acquired = 1, released = 1,
        statements = [(''SELECT * FROM orders'', [])] \<rparr>)"
  by (simp add: handleQuery_def finalQuery_def connect_def clientQuery_def release_def Let_def
      mkDefaultConfig_def emptyEnv_def parseInt_def parsedOr_def envOr_def
      quietWorld_def zeroArgs_def negativeArgs_def emptyPool_def emptyResult_def
      startsWith_def includesStr_def toUpperCase_def trim_def isWhiteSpace_def upperChar_def
      sublist_Cons_right numberToString_def natToString.simps)

section \<open>Column descriptors\<close>

lemma describeColumns_nth:
  assumes "i < length rs"
  shows "map (\<lambda>(index, r). describeColumn index r) (enumerate 0 rs) ! i =
         describeColumn i (rs ! i)"
  using assms by (simp add: nth_enumerate_eq)

lemma describeColumn_fields:
  "col_position (describeColumn i r) = i + 1 \<and>
   nullable (describeColumn i r) = (getProp r ''is_nullable'' = JStr ''YES'') \<and>
   fullType (describeColumn i r) =
     toStr (getProp r ''data_type'') @
     (if truthy (getProp r ''character_maximum_length'')
      then ''('' @ toStr (getProp r ''character_maximum_length'') @ '')''
      else []) @
     (if truthy (getProp r ''numeric_precision'')
      then ''('' @ toStr (getProp r ''numeric_precision'') @
           (if truthy (getProp r ''numeric_scale'')
            then '','' @ toStr (getProp r ''numeric_scale'')
            else []) @
           '')''
      else [])"
  unfolding describeColumn_def by (simp only: column_descriptor.simps simp_thms)

lemma usersRows_described:
  "map fullType (map (\<lambda>(index, r). describeColumn index r) (enumerate 0 usersRows)) =
     [''integer(32)'', ''character varying(50)'', ''timestamp without time zone''] \<and>
   map nullable (map (\<lambda>(index, r). describeColumn index r) (enumerate 0 usersRows)) =
     [False, True, True] \<and>
   map col_position (map (\<lambda>(index, r). describeColumn index r) (enumerate 0 usersRows)) =
     [1, 2, 3] \<and>
   length usersRows = 3"
  by (simp add: usersRows_def enumerate_eq_zip describeColumn_def getProp_def
      numberToString_def natToString.simps)

lemma usersWorld_describe:
  "connectError usersWorld = None \<and>
   runQuery usersWorld describeSql
     [strOr (schema usersArgs) (default_schema (mkDefaultConfig emptyEnv)), tableName usersArgs] =
     Inr usersResult \<and>
   result_rows usersResult = usersRows"
  by (simp add: usersWorld_def usersResult_def)

text \<open>
  Claim C8, as stated, fails on its concrete scenario: for the table with columns
  \<^verbatim>\<open>id integer primary key, name varchar(50), created_at timestamp\<close> the first
  full-type string is not \<^verbatim>\<open>integer\<close>. The catalogue reports a numeric precision for
  the integer column, and the handler appends it.
\<close>

theorem users_fullTypes_differ_from_claimed:
  "map fullType (columnsOf (fst (handleDescribeTable (mkDefaultConfig emptyEnv) usersWorld
       usersArgs emptyPool))) \<noteq>
     [''integer'', ''character varying(50)'', ''timestamp without time zone'']"
proof -
  from usersWorld_describe
  have "handleDescribeTable (mkDefaultConfig emptyEnv) usersWorld usersArgs emptyPool =
      (DescribeSuccess
         \<lparr> ds_table =
             \<lparr> table_name = tableName usersArgs,
               table_schema = strOr (schema usersArgs) (default_schema (mkDefaultConfig emptyEnv)),
               table_fullName =
                 Some (strOr (schema usersArgs) (default_schema (mkDefaultConfig emptyEnv)) @
                       ''.'' @ tableName usersArgs) \<rparr>,
           ds_columns =
             map (\<lambda>(index, r). describeColumn index r) (enumerate 0 (result_rows usersResult)),
           ds_metadata =
             \<lparr> columnCount = length (result_rows usersResult),
               columns_found = (length (result_rows usersResult) > 0) \<rparr> \<rparr>,
       servedPool emptyPool describeSql
         [strOr (schema usersArgs) (default_schema (mkDefaultConfig emptyEnv)),
          tableName usersArgs])"
    by (intro handleDescribeTable_ok) simp_all
  then have "columnsOf (fst (handleDescribeTable (mkDefaultConfig emptyEnv) usersWorld
       usersArgs emptyPool)) =
      map (\<lambda>(index, r). describeColumn index r) (enumerate 0 usersRows)"
    using usersWorld_describe by simp
  with usersRows_described show ?thesis
    by simp
qed

text \<open>
  Claim C8, amended. Every row of the introspection result becomes one column
  descriptor, in order: its position is its 1-based index, its nullable flag is true
  exactly when \<^verbatim>\<open>is_nullable\<close> is the string \<^verbatim>\<open>YES\<close>, and its full type is the base
  data type, followed by the length in parentheses when \<^verbatim>\<open>character_maximum_length\<close>
  is truthy, followed by the precision in parentheses when \<^verbatim>\<open>numeric_precision\<close> is
  truthy, with the scale after a comma when \<^verbatim>\<open>numeric_scale\<close> is truthy. For the
  concrete table, where the catalogue reports precision 32 and scale 0 for the integer
  column, the full types are \<^verbatim>\<open>integer(32)\<close>, \<^verbatim>\<open>character varying(50)\<close> and
  \<^verbatim>\<open>timestamp without time zone\<close>, the nullable flags are false, true, true, and the
  column count is 3.
\<close>

theorem describe_maps_rows_to_column_descriptors:
  assumes conn: "connectError w = None"
    and res: "runQuery w describeSql [strOr (schema a) (default_schema cfg), tableName a] =
                Inr result"
  shows "\<exists>env. fst (handleDescribeTable cfg w a p) = DescribeSuccess env \<and>
      columnCount (ds_metadata env) = length (result_rows result) \<and>
      length (ds_columns env) = length (result_rows result) \<and>
      (\<forall>i < length (result_rows result).
         col_position (ds_columns env ! i) = i + 1 \<and>
         nullable (ds_columns env ! i) =
           (getProp (result_rows result ! i) ''is_nullable'' = JStr ''YES'') \<and>
         fullType (ds_columns env ! i) =
           toStr (getProp (result_rows result ! i) ''data_type'') @
           (if truthy (getProp (result_rows result ! i) ''character_maximum_length'')
            then ''('' @ toStr (getProp (result_rows result ! i) ''character_maximum_length'') @
                 '')''
            else []) @
           (if truthy (getProp (result_rows result ! i) ''numeric_precision'')
            then ''('' @ toStr (getProp (result_rows result ! i) ''numeric_precision'') @
                 (if truthy (getProp (result_rows result ! i) ''numeric_scale'')
                  then '','' @ toStr (getProp (result_rows result ! i) ''numeric_scale'')
                  else []) @
                 '')''
            else [])) \<and>
      (result_rows result = usersRows \<longrightarrow>
         map fullType (ds_columns env) =
           [''integer(32)'', ''character varying(50)'', ''timestamp without time zone''] \<and>
         map nullable (ds_columns env) = [False, True, True] \<and>
         map col_position (ds_columns env) = [1, 2, 3] \<and>
         columnCount (ds_metadata env) = 3)"
proof -
  let ?cols = "map (\<lambda>(index, r). describeColumn index r) (enumerate 0 (result_rows result))"
  from handleDescribeTable_ok [OF conn res, of p]
  obtain env where env: "fst (handleDescribeTable cfg w a p) = DescribeSuccess env"
    and cols: "ds_columns env = ?cols"
    and count: "columnCount (ds_metadata env) = length (result_rows result)"
    by simp
  have len: "length (ds_columns env) = length (result_rows result)"
    by (simp add: cols)
  have each: "col_position (ds_columns env ! i) = i + 1 \<and>
         nullable (ds_columns env ! i) =
           (getProp (result_rows result ! i) ''is_nullable'' = JStr ''YES'') \<and>
         fullType (ds_columns env ! i) =
           toStr (getProp (result_rows result ! i) ''data_type'') @
           (if truthy (getProp (result_rows result ! i) ''character_maximum_length'')
            then ''('' @ toStr (getProp (result_rows result ! i) ''character_maximum_length'') @
                 '')''
            else []) @
           (if truthy (getProp (result_rows result ! i) ''numeric_precision'')
            then ''('' @ toStr (getProp (result_rows result ! i) ''numeric_precision'') @
                 (if truthy (getProp (result_rows result ! i) ''numeric_scale'')
                  then '','' @ toStr (getProp (result_rows result ! i) ''numeric_scale'')
                  else []) @
                 '')''
            else [])"
    if "i < length (result_rows result)" for i
    unfolding cols describeColumns_nth [OF that]
    by (rule describeColumn_fields)
  have users: "map fullType (ds_columns env) =
           [''integer(32)'', ''character varying(50)'', ''timestamp without time zone''] \<and>
         map nullable (ds_columns env) = [False, True, True] \<and>
         map col_position (ds_columns env) = [1, 2, 3] \<and>
         columnCount (ds_metadata env) = 3"
    if "result_rows result = usersRows"
  proof -
    have c: "ds_columns env =
        map (\<lambda>(index, r). describeColumn index r) (enumerate 0 usersRows)"
      unfolding cols that by (rule refl)
    have n: "columnCount (ds_metadata env) = length usersRows"
      unfolding count that by (rule refl)
    from usersRows_described show ?thesis
      unfolding c n by blast
  qed
  show ?thesis
  proof (intro exI [of _ env] conjI)
    show "fst (handleDescribeTable cfg w a p) = DescribeSuccess env" by (rule env)
    show "columnCount (ds_metadata env) = length (result_rows result)" by (rule count)
    show "length (ds_columns env) = length (result_rows result)" by (rule len)
    show "\<forall>i < length (result_rows result).
         col_position (ds_columns env ! i) = i + 1 \<and>
         nullable (ds_columns env ! i) =
           (getProp (result_rows result ! i) ''is_nullable'' = JStr ''YES'') \<and>
         fullType (ds_columns env ! i) =
           toStr (getProp (result_rows result ! i) ''data_type'') @
           (if truthy (getProp (result_rows result ! i) ''character_maximum_length'')
            then ''('' @ toStr (getProp (result_rows result ! i) ''character_maximum_length'') @
                 '')''
            else []) @
           (if truthy (getProp (result_rows result ! i) ''numeric_precision'')
            then ''('' @ toStr (getProp (result_rows result ! i) ''numeric_precision'') @
                 (if truthy (getProp (result_rows result ! i) ''numeric_scale'')
                  then '','' @ toStr (getProp (result_rows result ! i) ''numeric_scale'')
                  else []) @
                 '')''
            else [])"
      using each by (intro allI impI)
    show "result_rows result = usersRows \<longrightarrow>
         map fullType (ds_columns env) =
           [''integer(32)'', ''character varying(50)'', ''timestamp without time zone''] \<and>
         map nullable (ds_columns env) = [False, True, True] \<and>
         map col_position (ds_columns env) = [1, 2, 3] \<and>
         columnCount (ds_metadata env) = 3"
      using users by (intro impI)
  qed
qed

text \<open>The concrete table, described through the handler.\<close>

theorem describe_users_witness:
  "connectError usersWorld = None \<and>
   result_rows usersResult = usersRows \<and>
   map fullType (columnsOf (fst (handleDescribeTable (mkDefaultConfig emptyEnv) usersWorld
       usersArgs emptyPool))) =
     [''integer(32)'', ''character varying(50)'', ''timestamp without time zone''] \<and>
   map nullable (columnsOf (fst (handleDescribeTable (mkDefaultConfig emptyEnv) usersWorld
       usersArgs emptyPool))) = [False, True, True]"
proof -
  have c: "connectError usersWorld = None"
    using usersWorld_describe by simp
  have r: "runQuery usersWorld describeSql
     [strOr (schema usersArgs) (default_schema (mkDefaultConfig emptyEnv)), tableName usersArgs] =
     Inr usersResult"
    using usersWorld_describe by simp
  have u: "result_rows usersResult = usersRows"
    using usersWorld_describe by simp
  from describe_maps_rows_to_column_descriptors [OF c r, of emptyPool]
  obtain env where
    "fst (handleDescribeTable (mkDefaultConfig emptyEnv) usersWorld usersArgs emptyPool) =
       DescribeSuccess env"
    and "result_rows usersResult = usersRows \<longrightarrow>
       map fullType (ds_columns env) =
         [''integer(32)'', ''character varying(50)'', ''timestamp without time zone''] \<and>
       map nullable (ds_columns env) = [False, True, True] \<and>
       map col_position (ds_columns env) = [1, 2, 3] \<and>
       columnCount (ds_metadata env) = 3"
    by (elim exE conjE) (rule that, assumption+)
  with c u show ?thesis
    by simp
qed

end
